theory Spec2Isabelle
  imports Main "HOL-Library.Sublist"
begin

section \<open>Data model of \<^verbatim>\<open>backend/main.py\<close>\<close>

text \<open>
  The Pydantic models become records with the fields of the source. A \<^verbatim>\<open>datetime\<close>
  is a point on a discrete time line. Strings are lists of characters. Two field names
  are changed: \<^verbatim>\<open>structure\<close> is a keyword of the prover and \<^verbatim>\<open>id\<close> is the identity function.
  Where two models share a field name the earlier one is written with its record's name
  in front (\<open>Review.status\<close>, \<open>Design.timestamp\<close>).
\<close>

type_synonym datetime = int

record DesignComponent =
  component :: string
  structure' :: string
  styling :: string
  reasoning :: string

record TechnicalSpecs =
  framework :: string
  styling :: string
  responsive :: bool
  accessibility :: string

record Design =
  timestamp :: datetime
  designs :: "DesignComponent list"
  technical_specs :: TechnicalSpecs

record Review =
  timestamp :: datetime
  score :: int
  status :: string
  strengths :: "string list"
  issues :: "string list"
  suggestions :: "string list"

record HumanApproval =
  approved :: bool
  feedback :: "string option"
  timestamp :: datetime
  approver :: string

record ProjectCreate =
  name :: string
  requirements :: string

record ProjectResponse =
  id' :: string
  name :: string
  requirements :: string
  status :: string
  created_at :: datetime
  design :: "Design option"
  review :: "Review option"
  human_approval :: "HumanApproval option"

record ApprovalRequest =
  approved :: bool
  feedback :: "string option"

text \<open>
  A stored project is the dictionary that \<^verbatim>\<open>create_project\<close> inserts. The key
  \<^verbatim>\<open>error_message\<close> is absent until the pipeline's exception handler sets it.
\<close>

record project_doc =
  name :: string
  requirements :: string
  status :: string
  created_at :: datetime
  design :: "Design option"
  review :: "Review option"
  human_approval :: "HumanApproval option"
  error_message :: "string option"

section \<open>Strings: \<^verbatim>\<open>str.lower\<close> and the \<^verbatim>\<open>in\<close> operator\<close>

text \<open>
  \<open>lower\<close> maps the letters A to Z to a to z and leaves every other character alone.
  \<open>contains needle s\<close> is Python's \<^verbatim>\<open>needle in s\<close>: the needle occurs as a contiguous
  run somewhere in \<open>s\<close>.
\<close>

definition lower_char :: "char \<Rightarrow> char" where
  "lower_char c =
     (case map_of (zip ''ABCDEFGHIJKLMNOPQRSTUVWXYZ'' ''abcdefghijklmnopqrstuvwxyz'') c of
        Some l \<Rightarrow> l
      | None \<Rightarrow> c)"

definition lower :: "string \<Rightarrow> string" where
  "lower s = map lower_char s"

fun contains :: "string \<Rightarrow> string \<Rightarrow> bool" where
  "contains needle [] = (needle = [])"
| "contains needle (c # cs) = (prefix needle (c # cs) \<or> contains needle cs)"

section \<open>AI agent 1: design generator\<close>

text \<open>
  \<^verbatim>\<open>asyncio.sleep\<close> has no effect on the value returned. The reading of
  \<^verbatim>\<open>datetime.utcnow()\<close> is the argument \<open>now\<close>. The two literals bound to the local
  variables \<^verbatim>\<open>designs\<close> and \<^verbatim>\<open>technical_specs\<close> are constants of their own.
\<close>

definition generated_designs :: "DesignComponent list" where
  "generated_designs =
     [
     \<lparr>component = ''Header Component'',
     structure' = ''Logo + Navigation Menu + CTA Button + Mobile Hamburger'',
     DesignComponent.styling = ''Dark gradient (slate-900 to slate-800), white text, glass morphism effect, sticky positioning'',
     reasoning = ''Modern header with clear visual hierarchy. Sticky positioning ensures constant navigation access. Glass morphism adds premium feel.''\<rparr>,
     \<lparr>component = ''Hero Section'',
     structure' = ''Large Heading + Subheading + Hero Image/Video + Dual CTA Buttons + Trust Indicators'',
     DesignComponent.styling = ''Full viewport height, gradient background, bold typography (4xl-6xl), animated elements, responsive grid'',
     reasoning = ''Eye-catching hero section designed to immediately capture attention and communicate value proposition. Dual CTAs provide primary and secondary actions.''\<rparr>,
     \<lparr>component = ''Features Grid'',
     structure' = ''3-column grid with icon cards, each containing: Icon + Title + Description + Learn More link'',
     DesignComponent.styling = ''Card-based layout with shadows, hover lift effect, consistent spacing (gap-6), rounded corners (rounded-xl)'',
     reasoning = ''Scannable layout that highlights key features. Card design allows easy content digestion. Hover effects add interactivity.''\<rparr>,
     \<lparr>component = ''Social Proof Section'',
     structure' = ''Customer testimonials carousel + Client logos grid + Statistics counter'',
     DesignComponent.styling = ''Alternating background color, contained width, auto-scrolling carousel, fade animations'',
     reasoning = ''Builds trust through social validation. Statistics provide concrete proof of value. Testimonials add human element.''\<rparr>,
     \<lparr>component = ''Footer Component'',
     structure' = ''Multi-column layout: Company Info + Quick Links + Resources + Newsletter Signup + Social Links'',
     DesignComponent.styling = ''Dark background (slate-900), organized columns, subtle borders, responsive stack on mobile'',
     reasoning = ''Comprehensive footer providing easy access to all important links and information. Newsletter signup captures leads.''\<rparr>]"

definition generated_technical_specs :: TechnicalSpecs where
  "generated_technical_specs =
     \<lparr>framework = ''React 18 with TypeScript'',
     TechnicalSpecs.styling = ''Tailwind CSS v3 with custom theme extensions'',
     responsive = True,
     accessibility = ''WCAG 2.1 AA compliant with ARIA labels, semantic HTML, keyboard navigation support''\<rparr>"

definition ai_agent_1_generate_design :: "datetime \<Rightarrow> string \<Rightarrow> Design" where
  "ai_agent_1_generate_design now requirements_arg =
     (let designs_v = generated_designs;
          technical_specs_v = generated_technical_specs
      in \<lparr>Design.timestamp = now, designs = designs_v, technical_specs = technical_specs_v\<rparr>)"

section \<open>AI agent 2: design reviewer\<close>

text \<open>
  The three \<^verbatim>\<open>if\<close> statements run one after the other on the running \<open>score\<close> and
  \<open>issues\<close>; the model numbers the successive values of both variables. The two
  literal lists (\<^verbatim>\<open>strengths\<close> and the argument of \<^verbatim>\<open>suggestions.extend\<close>) are constants
  of their own.
\<close>

definition review_strengths :: "string list" where
  "review_strengths =
     [''Well-structured component hierarchy with clear separation of concerns'',
      ''Responsive design approach ensures compatibility across all devices'',
      ''Accessibility considerations properly integrated from the start'',
      ''Modern visual aesthetic aligned with current design trends'',
      ''Comprehensive technical specifications provided'',
      ''Each component has clear reasoning justifying design decisions'']"

definition review_suggestions :: "string list" where
  "review_suggestions =
     [''Consider adding loading states and skeleton screens for better perceived performance'',
      ''Implement micro-animations for improved user engagement and feedback'',
      ''Add dark mode toggle for user preference accommodation'',
      ''Include error boundary components for graceful error handling'',
      ''Consider implementing progressive image loading for performance'',
      ''Add A/B testing hooks for future optimization'',
      ''Include analytics tracking for user behavior insights'']"

definition ai_agent_2_review_design :: "datetime \<Rightarrow> Design \<Rightarrow> string \<Rightarrow> Review" where
  "ai_agent_2_review_design now design_arg requirements_arg =
     (let score0 = (85 :: int);
          issues0 = ([] :: string list);
          suggestions0 = ([] :: string list);
          strengths_v = review_strengths;
          component_count = int (length (designs design_arg));
          few = (component_count < 3);
          issues1 = (if few then issues0 @ [''Limited number of components may not cover all user needs''] else issues0);
          score1 = (if few then score0 - 10 else score0);
          fixed = (\<not> responsive (technical_specs design_arg));
          issues2 = (if fixed then issues1 @ [''CRITICAL: Design must be responsive for mobile users''] else issues1);
          score2 = (if fixed then score1 - 20 else score1);
          unnamed = (\<not> contains ''accessibility'' (lower (accessibility (technical_specs design_arg))));
          issues3 = (if unnamed then issues2 @ [''Accessibility standards not clearly defined''] else issues2);
          score3 = (if unnamed then score2 - 15 else score2);
          suggestions1 = suggestions0 @ review_suggestions;
          status_v = (if score3 \<ge> 80 then ''approved'' else ''needs_revision'')
      in \<lparr>Review.timestamp = now, score = score3, Review.status = status_v,
          strengths = strengths_v, issues = issues3, suggestions = suggestions1\<rparr>)"

section \<open>Exceptions and the collaborators outside the repository\<close>

text \<open>
  Every exception of the model is a subclass of Python's \<^verbatim>\<open>Exception\<close>:
  FastAPI's \<^verbatim>\<open>HTTPException(status_code, detail)\<close>, the \<^verbatim>\<open>InvalidId\<close> that
  \<^verbatim>\<open>ObjectId(project_id)\<close> raises on a string it rejects, and an exception raised by the
  store driver, with its message.
\<close>

datatype exn = HTTPException int string | InvalidId string | DriverError string

text \<open>
  The library functions the handlers call are parameters, so that every theorem holds
  whatever they compute: \<open>ObjectId\<close> parses a string into a store key or rejects it
  (\<open>None\<close>), \<open>str_oid\<close> is \<^verbatim>\<open>str\<close> on a key and \<open>str_exn\<close> is \<^verbatim>\<open>str\<close> on an exception.
\<close>

record 'oid env =
  ObjectId :: "string \<Rightarrow> 'oid option"
  str_oid :: "'oid \<Rightarrow> string"
  str_exn :: "exn \<Rightarrow> string"

text \<open>
  The collection \<^verbatim>\<open>projects_collection\<close> is a map from keys to stored projects. The
  store is reached over a network, so each driver call may raise: \<open>pending_faults\<close> lists
  what the coming driver calls do, one entry per call (\<open>None\<close>: the call goes through,
  \<open>Some msg\<close>: it raises with that message); past the end of the list every call goes
  through.
\<close>

record 'oid db =
  docs :: "'oid \<rightharpoonup> project_doc"
  pending_faults :: "string option list"

text \<open>
  \<^verbatim>\<open>find_one\<close> returns the matching document with its key \<^verbatim>\<open>_id\<close>, or \<^verbatim>\<open>None\<close>.
\<close>

definition driver_call :: "'oid db \<Rightarrow> exn option \<times> 'oid db" where
  "driver_call s =
     (case pending_faults s of
        [] \<Rightarrow> (None, s)
      | f # fs \<Rightarrow> (map_option DriverError f, s\<lparr>pending_faults := fs\<rparr>))"

definition find_one ::
  "'oid \<Rightarrow> 'oid db \<Rightarrow> (exn + ('oid \<times> project_doc) option) \<times> 'oid db" where
  "find_one oid s =
     (case driver_call s of
        (Some e, s') \<Rightarrow> (Inl e, s')
      | (None, s') \<Rightarrow> (Inr (map_option (Pair oid) (docs s' oid)), s'))"

text \<open>
  \<^verbatim>\<open>update_one(filter, {"$set": fields})\<close> changes the matching document when there is
  one and does nothing otherwise; the fields to set are a function on documents.
\<close>

definition update_one ::
  "'oid \<Rightarrow> (project_doc \<Rightarrow> project_doc) \<Rightarrow> 'oid db \<Rightarrow> (exn + unit) \<times> 'oid db" where
  "update_one oid set_fields s =
     (case driver_call s of
        (Some e, s') \<Rightarrow> (Inl e, s')
      | (None, s') \<Rightarrow>
          (case docs s' oid of
             None \<Rightarrow> (Inr (), s')
           | Some d \<Rightarrow> (Inr (), s'\<lparr>docs := (docs s')(oid \<mapsto> set_fields d)\<rparr>)))"

text \<open>
  \<^verbatim>\<open>insert_one\<close> stores the document under the key \<open>new_id\<close> that the driver generates
  and returns the key; a key already in use is refused by the store.
\<close>

definition insert_one :: "'oid \<Rightarrow> project_doc \<Rightarrow> 'oid db \<Rightarrow> (exn + 'oid) \<times> 'oid db" where
  "insert_one new_id doc s =
     (case driver_call s of
        (Some e, s') \<Rightarrow> (Inl e, s')
      | (None, s') \<Rightarrow>
          (case docs s' new_id of
             Some d \<Rightarrow> (Inl (DriverError ''DuplicateKeyError''), s')
           | None \<Rightarrow> (Inr new_id, s'\<lparr>docs := (docs s')(new_id \<mapsto> doc)\<rparr>)))"

text \<open>
  The source writes \<^verbatim>\<open>update_one({"_id": ObjectId(project_id)}, ...)\<close> and
  \<^verbatim>\<open>find_one({"_id": ObjectId(project_id)})\<close>: the argument is evaluated first, so a
  rejected string raises before the driver is called.
\<close>

definition update_by_id ::
  "'oid env \<Rightarrow> string \<Rightarrow> (project_doc \<Rightarrow> project_doc) \<Rightarrow> 'oid db \<Rightarrow> (exn + unit) \<times> 'oid db" where
  "update_by_id env project_id set_fields s =
     (case ObjectId env project_id of
        None \<Rightarrow> (Inl (InvalidId project_id), s)
      | Some oid \<Rightarrow> update_one oid set_fields s)"

definition find_by_id ::
  "'oid env \<Rightarrow> string \<Rightarrow> 'oid db \<Rightarrow> (exn + ('oid \<times> project_doc) option) \<times> 'oid db" where
  "find_by_id env project_id s =
     (case ObjectId env project_id of
        None \<Rightarrow> (Inl (InvalidId project_id), s)
      | Some oid \<Rightarrow> find_one oid s)"

section \<open>Background task: the AI processing pipeline\<close>

text \<open>
  Each of the four \<^verbatim>\<open>await projects_collection.update_one\<close> statements of
  \<^verbatim>\<open>process_ai_pipeline\<close> is a function of its own, so that the states between them can
  be spoken about; \<open>process_ai_pipeline_try\<close> is the body of the \<^verbatim>\<open>try\<close> and
  \<open>process_ai_pipeline\<close> adds the \<^verbatim>\<open>except Exception\<close> handler. The result \<open>Inl e\<close> is the
  exception that leaves the block. \<open>now1\<close> and \<open>now2\<close> are the clock readings of the two
  agents.
\<close>

definition start_generating :: "'oid env \<Rightarrow> string \<Rightarrow> 'oid db \<Rightarrow> (exn + unit) \<times> 'oid db" where
  "start_generating env project_id s =
     update_by_id env project_id (\<lambda>d. d\<lparr>status := ''generating''\<rparr>) s"

definition store_design ::
  "'oid env \<Rightarrow> string \<Rightarrow> Design \<Rightarrow> 'oid db \<Rightarrow> (exn + unit) \<times> 'oid db" where
  "store_design env project_id design_v s =
     update_by_id env project_id (\<lambda>d. d\<lparr>design := Some design_v, status := ''reviewing''\<rparr>) s"

definition store_review ::
  "'oid env \<Rightarrow> string \<Rightarrow> Review \<Rightarrow> 'oid db \<Rightarrow> (exn + unit) \<times> 'oid db" where
  "store_review env project_id review_v s =
     (let new_status =
            (if Review.status review_v = ''approved'' then ''pending_approval''
             else ''needs_revision'')
      in update_by_id env project_id (\<lambda>d. d\<lparr>review := Some review_v, status := new_status\<rparr>) s)"

definition record_error :: "'oid env \<Rightarrow> string \<Rightarrow> exn \<Rightarrow> 'oid db \<Rightarrow> (exn + unit) \<times> 'oid db" where
  "record_error env project_id e s =
     update_by_id env project_id
       (\<lambda>d. d\<lparr>status := ''error'', error_message := Some (str_exn env e)\<rparr>) s"

definition process_ai_pipeline_try ::
  "'oid env \<Rightarrow> datetime \<Rightarrow> datetime \<Rightarrow> string \<Rightarrow> string \<Rightarrow> 'oid db \<Rightarrow> (exn + unit) \<times> 'oid db" where
  "process_ai_pipeline_try env now1 now2 project_id requirements_arg s =
     (case start_generating env project_id s of
        (Inl e, s1) \<Rightarrow> (Inl e, s1)
      | (Inr u, s1) \<Rightarrow>
          (let design_v = ai_agent_1_generate_design now1 requirements_arg in
           case store_design env project_id design_v s1 of
             (Inl e, s2) \<Rightarrow> (Inl e, s2)
           | (Inr u, s2) \<Rightarrow>
               (let review_v = ai_agent_2_review_design now2 design_v requirements_arg
                in store_review env project_id review_v s2)))"

definition process_ai_pipeline ::
  "'oid env \<Rightarrow> datetime \<Rightarrow> datetime \<Rightarrow> string \<Rightarrow> string \<Rightarrow> 'oid db \<Rightarrow> (exn + unit) \<times> 'oid db" where
  "process_ai_pipeline env now1 now2 project_id requirements_arg s =
     (case process_ai_pipeline_try env now1 now2 project_id requirements_arg s of
        (Inr u, s') \<Rightarrow> (Inr u, s')
      | (Inl e, s') \<Rightarrow> record_error env project_id e s')"

section \<open>API routes\<close>

text \<open>
  A route returns its reply or the exception it raises, the background tasks it added
  (each the two arguments of \<^verbatim>\<open>process_ai_pipeline\<close>), and the store. The dictionary
  replies of \<^verbatim>\<open>approve_project\<close> and \<^verbatim>\<open>regenerate_design\<close> have the keys
  \<^verbatim>\<open>message\<close> and \<^verbatim>\<open>project_id\<close>.
\<close>

type_synonym background_task = "string \<times> string"

record reply =
  message :: string
  project_id :: string

definition create_project ::
  "'oid env \<Rightarrow> datetime \<Rightarrow> 'oid \<Rightarrow> ProjectCreate \<Rightarrow> 'oid db
     \<Rightarrow> (exn + ProjectResponse) \<times> background_task list \<times> 'oid db" where
  "create_project env now new_id project s =
     (let project_data =
            \<lparr>name = ProjectCreate.name project,
             requirements = ProjectCreate.requirements project,
             status = ''pending'',
             created_at = now,
             design = None,
             review = None,
             human_approval = None,
             error_message = None\<rparr>
      in case insert_one new_id project_data s of
           (Inl e, s') \<Rightarrow> (Inl e, [], s')
         | (Inr inserted_id, s') \<Rightarrow>
             (let project_id_v = str_oid env inserted_id;
                  tasks = [(project_id_v, ProjectCreate.requirements project)]
              in (Inr \<lparr>id' = project_id_v,
                       ProjectResponse.name = name project_data,
                       ProjectResponse.requirements = requirements project_data,
                       ProjectResponse.status = status project_data,
                       ProjectResponse.created_at = created_at project_data,
                       ProjectResponse.design = design project_data,
                       ProjectResponse.review = review project_data,
                       ProjectResponse.human_approval = human_approval project_data\<rparr>,
                  tasks, s')))"

text \<open>
  \<^verbatim>\<open>get_project\<close>: the body of the \<^verbatim>\<open>try\<close>, then the single handler
  \<^verbatim>\<open>except Exception as e: raise HTTPException(status_code=400, detail=str(e))\<close>.
\<close>

definition get_project_try ::
  "'oid env \<Rightarrow> string \<Rightarrow> 'oid db \<Rightarrow> (exn + ProjectResponse) \<times> 'oid db" where
  "get_project_try env project_id_arg s =
     (case find_by_id env project_id_arg s of
        (Inl e, s') \<Rightarrow> (Inl e, s')
      | (Inr None, s') \<Rightarrow> (Inl (HTTPException 404 ''Project not found''), s')
      | (Inr (Some (oid, project)), s') \<Rightarrow>
          (Inr \<lparr>id' = str_oid env oid,
                ProjectResponse.name = name project,
                ProjectResponse.requirements = requirements project,
                ProjectResponse.status = status project,
                ProjectResponse.created_at = created_at project,
                ProjectResponse.design = design project,
                ProjectResponse.review = review project,
                ProjectResponse.human_approval = human_approval project\<rparr>, s'))"

definition get_project ::
  "'oid env \<Rightarrow> string \<Rightarrow> 'oid db \<Rightarrow> (exn + ProjectResponse) \<times> 'oid db" where
  "get_project env project_id_arg s =
     (case get_project_try env project_id_arg s of
        (Inl e, s') \<Rightarrow> (Inl (HTTPException 400 (str_exn env e)), s')
      | (Inr r, s') \<Rightarrow> (Inr r, s'))"

text \<open>
  \<^verbatim>\<open>approve_project\<close>: the body of the \<^verbatim>\<open>try\<close>, then the two handlers in their order:
  \<^verbatim>\<open>except HTTPException: raise\<close> and \<^verbatim>\<open>except Exception as e\<close>.
  \<^verbatim>\<open>approval.feedback or ""\<close> is the feedback when it is a non-empty string.
\<close>

definition approve_project_try ::
  "'oid env \<Rightarrow> datetime \<Rightarrow> string \<Rightarrow> ApprovalRequest \<Rightarrow> 'oid db \<Rightarrow> (exn + reply) \<times> 'oid db" where
  "approve_project_try env now project_id_arg approval s =
     (case find_by_id env project_id_arg s of
        (Inl e, s') \<Rightarrow> (Inl e, s')
      | (Inr None, s') \<Rightarrow> (Inl (HTTPException 404 ''Project not found''), s')
      | (Inr (Some (oid, project)), s') \<Rightarrow>
          (if status project \<noteq> ''pending_approval''
           then (Inl (HTTPException 400
                   (''Project cannot be approved in current status: '' @ status project)), s')
           else
             (let human_approval_v =
                    \<lparr>HumanApproval.approved = approved approval,
                     HumanApproval.feedback =
                       Some (case feedback approval of
                               None \<Rightarrow> []
                             | Some f \<Rightarrow> (if f = [] then [] else f)),
                     HumanApproval.timestamp = now,
                     approver = ''Human Reviewer''\<rparr>;
                  new_status = (if approved approval then ''approved'' else ''rejected'')
              in case update_by_id env project_id_arg
                        (\<lambda>d. d\<lparr>human_approval := Some human_approval_v, status := new_status\<rparr>) s' of
                   (Inl e, s'') \<Rightarrow> (Inl e, s'')
                 | (Inr u, s'') \<Rightarrow>
                     (Inr \<lparr>message = ''Project '' @ new_status, project_id = project_id_arg\<rparr>,
                      s''))))"

definition approve_project ::
  "'oid env \<Rightarrow> datetime \<Rightarrow> string \<Rightarrow> ApprovalRequest \<Rightarrow> 'oid db \<Rightarrow> (exn + reply) \<times> 'oid db" where
  "approve_project env now project_id_arg approval s =
     (case approve_project_try env now project_id_arg approval s of
        (Inl (HTTPException code detail), s') \<Rightarrow> (Inl (HTTPException code detail), s')
      | (Inl e, s') \<Rightarrow> (Inl (HTTPException 400 (str_exn env e)), s')
      | (Inr r, s') \<Rightarrow> (Inr r, s'))"

text \<open>
  \<^verbatim>\<open>regenerate_design\<close>: the body of the \<^verbatim>\<open>try\<close>, then the single handler
  \<^verbatim>\<open>except Exception as e\<close>, which also catches the 404 raised in the body.
\<close>

definition regenerate_design_try ::
  "'oid env \<Rightarrow> string \<Rightarrow> 'oid db \<Rightarrow> (exn + reply) \<times> background_task list \<times> 'oid db" where
  "regenerate_design_try env project_id_arg s =
     (case find_by_id env project_id_arg s of
        (Inl e, s') \<Rightarrow> (Inl e, [], s')
      | (Inr None, s') \<Rightarrow> (Inl (HTTPException 404 ''Project not found''), [], s')
      | (Inr (Some (oid, project)), s') \<Rightarrow>
          (case update_by_id env project_id_arg
                  (\<lambda>d. d\<lparr>status := ''pending'', design := None, review := None,
                          human_approval := None\<rparr>) s' of
             (Inl e, s'') \<Rightarrow> (Inl e, [], s'')
           | (Inr u, s'') \<Rightarrow>
               (Inr \<lparr>message = ''Design regeneration started'', project_id = project_id_arg\<rparr>,
                [(project_id_arg, requirements project)], s'')))"

definition regenerate_design ::
  "'oid env \<Rightarrow> string \<Rightarrow> 'oid db \<Rightarrow> (exn + reply) \<times> background_task list \<times> 'oid db" where
  "regenerate_design env project_id_arg s =
     (case regenerate_design_try env project_id_arg s of
        (Inl e, tasks, s') \<Rightarrow> (Inl (HTTPException 400 (str_exn env e)), tasks, s')
      | (Inr r, tasks, s') \<Rightarrow> (Inr r, tasks, s'))"

section \<open>Driver calls that go through\<close>

text \<open>
  \<open>calls_ok n s\<close>: the next \<open>n\<close> driver calls raise nothing. \<open>after_call s\<close> is the store
  once one driver call has been made.
\<close>

definition calls_ok :: "nat \<Rightarrow> 'oid db \<Rightarrow> bool" where
  "calls_ok n s = list_all (\<lambda>f. f = None) (take n (pending_faults s))"

definition after_call :: "'oid db \<Rightarrow> 'oid db" where
  "after_call s = s\<lparr>pending_faults := tl (pending_faults s)\<rparr>"

section \<open>The life of one project\<close>

text \<open>
  The states one project goes through when at most one pipeline task runs on it at a
  time. Beside the store, a state holds where that task stands: not running, added by
  a route but not started (with its \<^verbatim>\<open>requirements\<close> argument), after the first update,
  or after the second update (with the local variable \<^verbatim>\<open>design\<close>).
\<close>

datatype task_state =
  NotRunning
  | Scheduled string
  | Generating string
  | Reviewing Design string

text \<open>
  A project is born by \<^verbatim>\<open>create_project\<close>. The pipeline task then makes its updates one
  at a time; an update that raises sends the task to its handler, after which it is
  over whether the handler's own update went through or not. \<^verbatim>\<open>approve_project\<close> may
  be called at any moment. \<^verbatim>\<open>regenerate_design\<close> is called only while no task runs on
  the project, since it adds a second one otherwise. The last rule is everything that
  goes on elsewhere: requests on other projects and changes of what the driver will do
  leave this project's document as it is.
\<close>

inductive reachable :: "'oid env \<Rightarrow> string \<Rightarrow> 'oid db \<times> task_state \<Rightarrow> bool"
  for env :: "'oid env" and pid :: string where
  created:
    "create_project env now new_id project s0 = (Inr resp, [(pid, req)], s)
     \<Longrightarrow> reachable env pid (s, Scheduled req)"
| generating:
    "reachable env pid (s, Scheduled req)
     \<Longrightarrow> start_generating env pid s = (Inr u, s')
     \<Longrightarrow> reachable env pid (s', Generating req)"
| generating_failed:
    "reachable env pid (s, Scheduled req)
     \<Longrightarrow> start_generating env pid s = (Inl e, s1)
     \<Longrightarrow> record_error env pid e s1 = (r, s')
     \<Longrightarrow> reachable env pid (s', NotRunning)"
| designed:
    "reachable env pid (s, Generating req)
     \<Longrightarrow> design_v = ai_agent_1_generate_design now req
     \<Longrightarrow> store_design env pid design_v s = (Inr u, s')
     \<Longrightarrow> reachable env pid (s', Reviewing design_v req)"
| designed_failed:
    "reachable env pid (s, Generating req)
     \<Longrightarrow> store_design env pid (ai_agent_1_generate_design now req) s = (Inl e, s1)
     \<Longrightarrow> record_error env pid e s1 = (r, s')
     \<Longrightarrow> reachable env pid (s', NotRunning)"
| reviewed:
    "reachable env pid (s, Reviewing design_v req)
     \<Longrightarrow> store_review env pid (ai_agent_2_review_design now design_v req) s = (Inr u, s')
     \<Longrightarrow> reachable env pid (s', NotRunning)"
| reviewed_failed:
    "reachable env pid (s, Reviewing design_v req)
     \<Longrightarrow> store_review env pid (ai_agent_2_review_design now design_v req) s = (Inl e, s1)
     \<Longrightarrow> record_error env pid e s1 = (r, s')
     \<Longrightarrow> reachable env pid (s', NotRunning)"
| approve:
    "reachable env pid (s, t)
     \<Longrightarrow> approve_project env now pid approval s = (r, s')
     \<Longrightarrow> reachable env pid (s', t)"
| regenerate:
    "reachable env pid (s, NotRunning)
     \<Longrightarrow> regenerate_design env pid s = (Inr r, [(pid, req)], s')
     \<Longrightarrow> reachable env pid (s', Scheduled req)"
| regenerate_failed:
    "reachable env pid (s, NotRunning)
     \<Longrightarrow> regenerate_design env pid s = (Inl e, tasks, s')
     \<Longrightarrow> reachable env pid (s', NotRunning)"
| elsewhere:
    "reachable env pid (s, t)
     \<Longrightarrow> ObjectId env pid = Some oid
     \<Longrightarrow> docs s' oid = docs s oid
     \<Longrightarrow> reachable env pid (s', t)"

text \<open>
  The invariant of the data model: which of the three optional fields may be set in
  which status.
\<close>

definition stage_invariant :: "project_doc \<Rightarrow> bool" where
  "stage_invariant d =
     ((status d = ''pending'' \<or> status d = ''generating'' \<longrightarrow> design d = None)
      \<and> (status d = ''pending'' \<or> status d = ''generating'' \<or> status d = ''reviewing''
           \<longrightarrow> review d = None)
      \<and> (status d \<noteq> ''approved'' \<and> status d \<noteq> ''rejected'' \<longrightarrow> human_approval d = None))"

section \<open>A sample environment and store\<close>

text \<open>
  One instance of the library functions, for evaluating the routes on concrete
  requests: a key is a string of 24 lower-case hexadecimal digits, \<^verbatim>\<open>str\<close> of a key is
  the string itself, and \<^verbatim>\<open>str\<close> of an exception is its detail or message.
\<close>

definition sample_env :: "string env" where
  "sample_env =
     \<lparr>ObjectId = (\<lambda>x. if length x = 24 \<and> list_all (\<lambda>c. c \<in> set ''0123456789abcdef'') x
                       then Some x else None),
      str_oid = (\<lambda>oid. oid),
      str_exn = (\<lambda>e. case e of
                         HTTPException code detail \<Rightarrow> detail
                       | InvalidId x \<Rightarrow> x
                       | DriverError msg \<Rightarrow> msg)\<rparr>"

definition sample_id :: string where
  "sample_id = ''64b7f0c2a1d3e4f5a6b7c8d9''"

definition sample_doc :: project_doc where
  "sample_doc =
     \<lparr>name = ''Shop'', requirements = ''A landing page'', status = ''pending'',
      created_at = 0, design = None, review = None, human_approval = None,
      error_message = None\<rparr>"

definition sample_db :: "string option list \<Rightarrow> string db" where
  "sample_db faults = \<lparr>docs = [sample_id \<mapsto> sample_doc], pending_faults = faults\<rparr>"

text \<open>
  A design of five components that is responsive and names the keyword: the generated
  one, with another accessibility text.
\<close>

definition accessible_design :: Design where
  "accessible_design =
     \<lparr>Design.timestamp = 0,
      designs = generated_designs,
      technical_specs = generated_technical_specs\<lparr>accessibility := ''Accessibility: WCAG 2.1 AA''\<rparr>\<rparr>"

section \<open>Properties of the string functions\<close>

text \<open>
  \<open>contains\<close> is the substring test, and on a lowered string it is the substring test up to
  the case of the letters.
\<close>

lemma contains_iff: "contains needle s \<longleftrightarrow> (\<exists>ps ss. s = ps @ needle @ ss)"
proof (induction s)
  case Nil
  then show ?case by auto
next
  case (Cons c cs)
  show ?case
  proof
    assume "contains needle (c # cs)"
    then consider "prefix needle (c # cs)" | "contains needle cs" by auto
    then show "\<exists>ps ss. c # cs = ps @ needle @ ss"
    proof cases
      case 1
      then obtain ss where "c # cs = needle @ ss" by (auto simp: prefix_def)
      then have "c # cs = [] @ needle @ ss" by simp
      then show ?thesis by blast
    next
      case 2
      with Cons.IH obtain ps ss where "cs = ps @ needle @ ss" by blast
      then have "c # cs = (c # ps) @ needle @ ss" by simp
      then show ?thesis by blast
    qed
  next
    assume "\<exists>ps ss. c # cs = ps @ needle @ ss"
    then obtain ps ss where eq: "c # cs = ps @ needle @ ss" by blast
    show "contains needle (c # cs)"
    proof (cases ps)
      case Nil
      with eq have "prefix needle (c # cs)" by (simp add: prefix_def)
      then show ?thesis by simp
    next
      case (Cons p ps')
      with eq have "cs = ps' @ needle @ ss" by simp
      with Cons.IH have "contains needle cs" by blast
      then show ?thesis by simp
    qed
  qed
qed

lemma contains_lower_iff:
  "contains needle (lower s) \<longleftrightarrow> (\<exists>ps m ss. s = ps @ m @ ss \<and> lower m = needle)"
proof
  assume "contains needle (lower s)"
  then obtain ps ss where "map lower_char s = ps @ needle @ ss"
    by (auto simp: contains_iff lower_def)
  then have "\<exists>us vs. s = us @ vs \<and> ps = map lower_char us \<and> needle @ ss = map lower_char vs"
    unfolding map_eq_append_conv .
  then obtain us vs where s: "s = us @ vs" and vs: "map lower_char vs = needle @ ss"
    by metis
  from vs have "\<exists>m ws. vs = m @ ws \<and> needle = map lower_char m \<and> ss = map lower_char ws"
    unfolding map_eq_append_conv .
  then obtain m ws where "vs = m @ ws" and "map lower_char m = needle"
    by metis
  with s have "s = us @ m @ ws \<and> lower m = needle" by (simp add: lower_def)
  then show "\<exists>ps m ss. s = ps @ m @ ss \<and> lower m = needle" by blast
next
  assume "\<exists>ps m ss. s = ps @ m @ ss \<and> lower m = needle"
  then obtain ps m ss where "s = ps @ m @ ss" and "lower m = needle" by blast
  then have "lower s = lower ps @ needle @ lower ss" by (auto simp: lower_def)
  then show "contains needle (lower s)" unfolding contains_iff by blast
qed

section \<open>Properties of the two agents\<close>

lemma review_score:
  "score (ai_agent_2_review_design now d r) =
     85 - (if length (designs d) < 3 then 10 else 0)
        - (if responsive (technical_specs d) then 0 else 20)
        - (if contains ''accessibility'' (lower (accessibility (technical_specs d))) then 0 else 15)"
  by (simp add: ai_agent_2_review_design_def Let_def)

lemma review_status:
  "Review.status (ai_agent_2_review_design now d r) =
     (if score (ai_agent_2_review_design now d r) \<ge> 80 then ''approved'' else ''needs_revision'')"
  by (simp add: ai_agent_2_review_design_def Let_def)

lemma accessible_design_facts:
  "length (designs accessible_design) = 5"
  "responsive (technical_specs accessible_design)"
  "contains ''accessibility'' (lower (accessibility (technical_specs accessible_design)))"
  by (simp_all add: accessible_design_def generated_designs_def generated_technical_specs_def
        lower_def lower_char_def)

text \<open>
  The generated design is responsive and has five components, but its accessibility text
  does not hold the keyword: the reviewer always gives it 70.
\<close>

lemma generated_design_score:
  "score (ai_agent_2_review_design now2 (ai_agent_1_generate_design now1 r1) r2) = 70"
proof -
  have "\<not> contains ''accessibility'' (lower (accessibility generated_technical_specs))"
    by (simp add: generated_technical_specs_def lower_def lower_char_def)
  moreover have "responsive generated_technical_specs"
    by (simp add: generated_technical_specs_def)
  moreover have "length generated_designs = 5"
    by (simp add: generated_designs_def)
  ultimately show ?thesis
    by (simp add: review_score ai_agent_1_generate_design_def)
qed

text \<open>
  C5: the reviewer's score is 85 minus 10 when the design has fewer than 3 components,
  minus 20 when \<^verbatim>\<open>technical_specs.responsive\<close> is false, minus 15 when the lowered
  accessibility text does not contain "accessibility"; the review status is "approved"
  exactly from 80 up. In particular a design with 5 components, responsive, with the
  keyword present gets score 85 and status "approved".
\<close>

theorem review_score_rule:
  "score (ai_agent_2_review_design now d r) =
     85 - (if length (designs d) < 3 then 10 else 0)
        - (if \<not> responsive (technical_specs d) then 20 else 0)
        - (if \<not> contains ''accessibility'' (lower (accessibility (technical_specs d))) then 15 else 0)
   \<and> Review.status (ai_agent_2_review_design now d r) =
       (if score (ai_agent_2_review_design now d r) \<ge> 80 then ''approved'' else ''needs_revision'')
   \<and> (length (designs d) = 5 \<and> responsive (technical_specs d)
          \<and> contains ''accessibility'' (lower (accessibility (technical_specs d)))
        \<longrightarrow> score (ai_agent_2_review_design now d r) = 85
            \<and> Review.status (ai_agent_2_review_design now d r) = ''approved'')"
  by (simp add: review_score review_status)

theorem review_score_rule_witness:
  "length (designs accessible_design) = 5
   \<and> responsive (technical_specs accessible_design)
   \<and> contains ''accessibility'' (lower (accessibility (technical_specs accessible_design)))
   \<and> score (ai_agent_2_review_design 1 accessible_design ''A landing page'') = 85
   \<and> Review.status (ai_agent_2_review_design 1 accessible_design ''A landing page'') = ''approved''"
  using review_score_rule [of 1 accessible_design "''A landing page''"]
  by (simp add: accessible_design_facts)

text \<open>
  C9: for every design the reviewer's score lies between 40 and 85.
\<close>

theorem review_score_bounds:
  "40 \<le> score (ai_agent_2_review_design now d r) \<and> score (ai_agent_2_review_design now d r) \<le> 85"
  by (simp add: review_score)

text \<open>
  C8, as stated, fails: both payloads carry the clock reading of the call in their
  \<^verbatim>\<open>timestamp\<close>, so two calls at different instants return different payloads.
\<close>

theorem stubs_not_equal_across_calls:
  "ai_agent_1_generate_design 0 ''A landing page'' \<noteq> ai_agent_1_generate_design 1 ''A landing page''
   \<and> ai_agent_2_review_design 0 accessible_design ''A landing page''
       \<noteq> ai_agent_2_review_design 1 accessible_design ''A landing page''"
  by (simp add: ai_agent_1_generate_design_def ai_agent_2_review_design_def Let_def)

text \<open>
  C8, amended: whatever the requirements strings, two calls of the generator return
  payloads that are equal except for the timestamp, which is the clock reading of the
  call; the same holds for two calls of the reviewer on equal designs.
\<close>

theorem stubs_fixed_up_to_timestamp:
  "ai_agent_1_generate_design now1 r1 = (ai_agent_1_generate_design now2 r2)\<lparr>Design.timestamp := now1\<rparr>
   \<and> Design.timestamp (ai_agent_1_generate_design now1 r1) = now1
   \<and> ai_agent_2_review_design now1 d r1 = (ai_agent_2_review_design now2 d r2)\<lparr>Review.timestamp := now1\<rparr>
   \<and> Review.timestamp (ai_agent_2_review_design now1 d r1) = now1"
  by (simp add: ai_agent_1_generate_design_def ai_agent_2_review_design_def Let_def)

end
